theory Spec2Isabelle
  imports Main "HOL-Library.Word" "HOL-Library.AList" "HOL-Library.Multiset"
begin

section \<open>The rate limiter (\<^verbatim>\<open>RateLimiter\<close>, main.go lines 15-56)\<close>

text \<open>
  Times are readings of Go's monotonic clock in nanoseconds, durations are nanoseconds.
  \<^verbatim>\<open>count\<close> and \<^verbatim>\<open>limitPerMin\<close> are Go \<^verbatim>\<open>int\<close>s; \<^verbatim>\<open>count\<close> is only
  incremented while it is below \<^verbatim>\<open>limitPerMin\<close>, so the increment cannot overflow
  and both are modelled as unbounded integers. The mutex makes every pass through the
  body of the \<^verbatim>\<open>for\<close> loop of \<^verbatim>\<open>Wait\<close> atomic up to the unlock; output
  on stdout is not modelled.
\<close>

record RateLimiter =
  count :: int
  limitPerMin :: int
  resetTime :: int

definition period :: int where
  "period = 61 * 1000000000"

text \<open>\<^verbatim>\<open>NewRateLimiter(limit)\<close>, called when the clock reads \<open>now\<close>.\<close>

definition NewRateLimiter :: "int \<Rightarrow> int \<Rightarrow> RateLimiter" where
  "NewRateLimiter limit now =
     \<lparr>count = 0, limitPerMin = limit, resetTime = now + period\<rparr>"

text \<open>Lines 34-38: the lazy reset at the head of the critical section.\<close>

definition Wait_reset :: "RateLimiter \<Rightarrow> int \<Rightarrow> RateLimiter" where
  "Wait_reset rl now =
     (if now > resetTime rl then rl\<lparr>count := 0, resetTime := now + period\<rparr> else rl)"

text \<open>
  One pass through the loop body with the clock reading \<open>now\<close>: either the call
  returns (\<open>Granted\<close>), or the caller leaves the critical section with a sleep
  duration (it sleeps only when the duration is positive) and tries again.
\<close>

datatype attempt = Granted | Sleep int

definition Wait_body :: "RateLimiter \<Rightarrow> int \<Rightarrow> attempt \<times> RateLimiter" where
  "Wait_body rl now =
     (let rl1 = Wait_reset rl now in
      if count rl1 < limitPerMin rl1
      then (Granted, rl1\<lparr>count := count rl1 + 1\<rparr>)
      else (Sleep (resetTime rl1 - now), rl1))"

text \<open>
  \<^verbatim>\<open>Wait\<close>: the loop runs once per clock reading; the list holds the readings
  the successive passes of this call observe. The result is the limiter at the return
  and the readings not consumed; \<open>None\<close> when no pass within the given readings
  returns (the loop has no bound of its own).
\<close>

fun Wait :: "RateLimiter \<Rightarrow> int list \<Rightarrow> (RateLimiter \<times> int list) option" where
  "Wait rl [] = None"
| "Wait rl (now # clock) =
     (case Wait_body rl now of
        (Granted, rl') \<Rightarrow> Some (rl', clock)
      | (Sleep d, rl') \<Rightarrow> Wait rl' clock)"

text \<open>
  The grants of a sequence of critical sections, whoever runs them: all callers execute
  the same body on the shared limiter, one at a time, so a run of the system is a list of
  clock readings, one per pass, and the grants are the readings at which a call returned.
\<close>

fun run :: "RateLimiter \<Rightarrow> int list \<Rightarrow> RateLimiter" where
  "run rl [] = rl"
| "run rl (now # ts) = run (snd (Wait_body rl now)) ts"

fun grants :: "RateLimiter \<Rightarrow> int list \<Rightarrow> int list" where
  "grants rl [] = []"
| "grants rl (now # ts) =
     (case Wait_body rl now of
        (Granted, rl') \<Rightarrow> now # grants rl' ts
      | (Sleep d, rl') \<Rightarrow> grants rl' ts)"

section \<open>Trade records and the standard-library functions the program calls\<close>

type_synonym int64 = "64 word"

record AggTrade =
  TradeId :: int64
  Price :: string
  Quantity :: string
  FirstId :: int64
  LastId :: int64
  Timestamp :: int64
  IsMaker :: bool
  IsBest :: bool

definition apiURL :: string where
  "apiURL = ''https://api.binance.com/api/v3/aggTrades''"

definition limitPerReq :: int where
  "limitPerReq = 1000"

definition maxReqPerMin :: int where
  "maxReqPerMin = 1499"

text \<open>
  Go's standard library is not part of the repository. The pieces whose output the
  program's results are made of are modelled here by what they are documented to
  compute: decimal formatting (\<^verbatim>\<open>strconv.Itoa\<close>, \<^verbatim>\<open>strconv.FormatInt(_, 10)\<close>),
  \<^verbatim>\<open>strconv.FormatBool\<close>, and the UTC calendar date of a millisecond timestamp
  (\<^verbatim>\<open>time.UnixMilli(ms).UTC().Format("2006-01-02")\<close>). The JSON decoder and the
  CSV encoder are parameters (\<open>stdlib\<close> below).
\<close>

definition digit_char :: "nat \<Rightarrow> char" where
  "digit_char d = ''0123456789'' ! d"

fun digits10 :: "nat \<Rightarrow> string" where
  "digits10 n = (if n < 10 then [digit_char n] else digits10 (n div 10) @ [digit_char (n mod 10)])"

declare digits10.simps [simp del]

definition Itoa :: "int \<Rightarrow> string" where
  "Itoa i = (if i < 0 then CHR ''-'' # digits10 (nat (- i)) else digits10 (nat i))"

definition FormatInt :: "int64 \<Rightarrow> string" where
  "FormatInt x = Itoa (sint x)"

definition FormatBool :: "bool \<Rightarrow> string" where
  "FormatBool b = (if b then ''true'' else ''false'')"

text \<open>
  The proleptic Gregorian date of a day number (days since 1970-01-01, negative before
  it), as (year, month, day). Divisions are on non-negative numbers except the first,
  which rounds down.
\<close>

definition civil_from_days :: "int \<Rightarrow> int \<times> int \<times> int" where
  "civil_from_days days =
     (let z = days + 719468;
          era = z div 146097;
          doe = z - era * 146097;
          yoe = (doe - doe div 1460 + doe div 36524 - doe div 146096) div 365;
          doy = doe - (365 * yoe + yoe div 4 - yoe div 100);
          mp = (5 * doy + 2) div 153;
          d = doy - (153 * mp + 2) div 5 + 1;
          m = (if mp < 10 then mp + 3 else mp - 9);
          y = yoe + era * 400 + (if m \<le> 2 then 1 else 0)
      in (y, m, d))"

text \<open>The time package's \<^verbatim>\<open>appendInt\<close>: a sign, then the digits zero-padded to a width.\<close>

definition appendInt :: "int \<Rightarrow> nat \<Rightarrow> string" where
  "appendInt x width =
     (let ds = digits10 (nat \<bar>x\<bar>)
      in (if x < 0 then ''-'' else []) @ replicate (width - length ds) CHR ''0'' @ ds)"

text \<open>
  \<^verbatim>\<open>time.UnixMilli(ms).UTC().Format("2006-01-02")\<close>. \<^verbatim>\<open>UnixMilli\<close> rounds
  the seconds down, so an instant before the epoch falls on the earlier day.
\<close>

definition utcDate :: "int64 \<Rightarrow> string" where
  "utcDate ms =
     (case civil_from_days (sint ms div 86400000) of
        (y, m, d) \<Rightarrow> appendInt y 4 @ ''-'' @ appendInt m 2 @ ''-'' @ appendInt d 2)"

text \<open>
  \<open>jsonDecode\<close> is \<^verbatim>\<open>json.NewDecoder(body).Decode(&trades)\<close> as a function of
  the body (\<open>Inl\<close> the decoding error); \<open>csvEncode\<close> is the text
  \<^verbatim>\<open>csv.Writer\<close> emits for one record, line end included.
\<close>

record stdlib =
  jsonDecode :: "string \<Rightarrow> string + AggTrade list"
  csvEncode :: "string list \<Rightarrow> string"

datatype error =
    TransportError string
  | APIError int string
  | DecodeError string
  | OpenError
  | WriteError

section \<open>\<^verbatim>\<open>fetchTrades\<close> (main.go lines 75-105)\<close>

text \<open>
  The request the function builds. \<^verbatim>\<open>http.NewRequest\<close> fails only on an invalid
  method or an unparsable URL; with the constant method \<^verbatim>\<open>GET\<close> and the constant
  \<open>apiURL\<close> it does not, so the first early return (lines 77-79) is never taken.
\<close>

record request =
  reqMethod :: string
  reqURL :: string
  reqQuery :: "(string \<times> string) list"

definition fetchRequest :: "string \<Rightarrow> int64 \<Rightarrow> request" where
  "fetchRequest symbol fromId =
     \<lparr>reqMethod = ''GET'', reqURL = apiURL,
      reqQuery = [(''symbol'', symbol), (''limit'', Itoa limitPerReq), (''fromId'', FormatInt fromId)]\<rparr>"

text \<open>
  What \<^verbatim>\<open>client.Do\<close> gives back: a transport failure (the 10 second timeout
  included), or a response with its status code and body.
\<close>

datatype http_result = DoError string | Response int string

definition fetchTrades ::
  "stdlib \<Rightarrow> (request \<Rightarrow> http_result) \<Rightarrow> string \<Rightarrow> int64 \<Rightarrow> error + AggTrade list" where
  "fetchTrades lib clientDo symbol fromId =
     (case clientDo (fetchRequest symbol fromId) of
        DoError m \<Rightarrow> Inl (TransportError m)
      | Response statusCode body \<Rightarrow>
          if statusCode \<noteq> 200 then Inl (APIError statusCode body)
          else (case jsonDecode lib body of
                  Inl m \<Rightarrow> Inl (DecodeError m)
                | Inr trades \<Rightarrow> Inr trades))"

section \<open>\<^verbatim>\<open>groupTradesByDate\<close> (main.go lines 146-162)\<close>

text \<open>
  The Go map from date strings to rows is an association list with one entry per key;
  \<^verbatim>\<open>grouped[dateStr] = append(grouped[dateStr], record)\<close> replaces the entry of
  the key, or adds one (a missing key reads as the empty slice). The order of the
  entries is the order of first insertion; Go leaves the iteration order of a map
  unspecified.
\<close>

definition tradeRecord :: "AggTrade \<Rightarrow> string list" where
  "tradeRecord trade =
     [FormatInt (TradeId trade), Price trade, Quantity trade,
      FormatInt (Timestamp trade), FormatBool (IsMaker trade)]"

definition groupStep ::
  "(string \<times> string list list) list \<Rightarrow> AggTrade \<Rightarrow> (string \<times> string list list) list" where
  "groupStep grouped trade =
     (let dateStr = utcDate (Timestamp trade);
          record = tradeRecord trade
      in AList.update dateStr
           ((case map_of grouped dateStr of None \<Rightarrow> [] | Some rows \<Rightarrow> rows) @ [record])
           grouped)"

definition groupTradesByDate :: "AggTrade list \<Rightarrow> (string \<times> string list list) list" where
  "groupTradesByDate trades = foldl groupStep [] trades"

section \<open>\<^verbatim>\<open>saveToCSV\<close> (main.go lines 164-181)\<close>

text \<open>
  The file system maps a path to the bytes of the file. What the operating system
  answers is not decided by the program: \<open>stat_fault\<close> makes \<^verbatim>\<open>os.Stat\<close> fail
  with an error other than not-exist, \<open>open_fault\<close> makes \<^verbatim>\<open>os.OpenFile\<close> fail,
  and \<open>write_fault = Some k\<close> makes the writing fail after \<open>k\<close> bytes reached the
  file.
\<close>

type_synonym fsys = "string \<rightharpoonup> string"

record faults =
  stat_fault :: bool
  open_fault :: bool
  write_fault :: "nat option"

definition no_faults :: faults where
  "no_faults = \<lparr>stat_fault = False, open_fault = False, write_fault = None\<rparr>"

datatype stat_result = StatOK | StatNotExist | StatOtherError

definition os_Stat :: "faults \<Rightarrow> fsys \<Rightarrow> string \<Rightarrow> stat_result" where
  "os_Stat flt fs filePath =
     (if stat_fault flt then StatOtherError
      else if fs filePath = None then StatNotExist else StatOK)"

definition header :: "string list" where
  "header = [''tradeId'', ''price'', ''quantity'', ''timestamp'', ''isBuyerMaker'']"

text \<open>
  The file is opened with \<^verbatim>\<open>O_APPEND|O_CREATE|O_WRONLY\<close>: a missing file starts
  empty, and everything written goes to the end. The CSV writer buffers; the bytes it was
  given are the header's line (when \<open>isNewFile\<close>) and the rows' lines, and they reach
  the file in that order. When a write to the file fails the writer keeps the error, so
  a prefix of those bytes is in the file and \<^verbatim>\<open>Write\<close> or \<^verbatim>\<open>WriteAll\<close>
  returns the error, which \<^verbatim>\<open>saveToCSV\<close> returns in both places.
\<close>

definition saveToCSV ::
  "stdlib \<Rightarrow> faults \<Rightarrow> fsys \<Rightarrow> string \<Rightarrow> string list list \<Rightarrow> error option \<times> fsys" where
  "saveToCSV lib flt fs filePath records =
     (let isNewFile = (os_Stat flt fs filePath = StatNotExist) in
      if open_fault flt then (Some OpenError, fs)
      else
        let old = (case fs filePath of None \<Rightarrow> [] | Some bytes \<Rightarrow> bytes);
            out = (if isNewFile then csvEncode lib header else []) @
                  concat (map (csvEncode lib) records)
        in (case write_fault flt of
              None \<Rightarrow> (None, fs(filePath \<mapsto> old @ out))
            | Some k \<Rightarrow> (Some WriteError, fs(filePath \<mapsto> old @ take k out))))"


section \<open>\<^verbatim>\<open>processSymbol\<close> (main.go lines 107-144)\<close>

text \<open>
  The state of a worker: the limiter it calls, its cursor \<^verbatim>\<open>fromId\<close>, the files
  written, and a log of the \<^verbatim>\<open>fromId\<close> arguments of the \<^verbatim>\<open>fetchTrades\<close>
  calls made so far, oldest first (the log is not in the program; the properties are
  stated on it).
\<close>

record worker =
  limiter :: RateLimiter
  fromId :: int64
  files :: fsys
  calls :: "int64 list"

text \<open>
  What the world supplies to one pass of the worker's loop: the clock readings its
  \<^verbatim>\<open>Wait\<close> call observes, the answer of the HTTP client, the faults of the file
  operations on each path.
\<close>

record iter_env =
  wait_clock :: "int list"
  clientDo :: "request \<Rightarrow> http_result"
  io_faults :: "string \<Rightarrow> faults"

text \<open>
  Where a run stands: \<open>Done\<close> after the \<^verbatim>\<open>break\<close>, \<open>Aborted\<close> after the
  early return on a failed \<^verbatim>\<open>os.MkdirAll\<close>; \<open>Running\<close> when the loop is to go
  round again, and \<open>Blocked\<close> when the \<^verbatim>\<open>Wait\<close> call did not return on the
  readings given. Only \<open>Done\<close> and \<open>Aborted\<close> are returns of \<^verbatim>\<open>processSymbol\<close>.
\<close>

datatype status = Running | Blocked | Done | Aborted

text \<open>Lines 134-139: every date's rows go to their file; a failed save is logged only.\<close>

fun saveGroups ::
  "stdlib \<Rightarrow> (string \<Rightarrow> faults) \<Rightarrow> string \<Rightarrow> (string \<times> string list list) list \<Rightarrow> fsys \<Rightarrow> fsys" where
  "saveGroups lib flt symbol [] fs = fs"
| "saveGroups lib flt symbol ((date, records) # groupedTrades) fs =
     (let filePath = symbol @ ''/'' @ date @ ''.csv''
      in saveGroups lib flt symbol groupedTrades
           (snd (saveToCSV lib (flt filePath) fs filePath records)))"

text \<open>
  One pass through the loop body, lines 117-142. After a failed fetch the worker sleeps
  5 seconds and goes round again; the sleep only lets time pass, which the clock
  readings of the next pass show.
\<close>

definition iteration :: "stdlib \<Rightarrow> string \<Rightarrow> iter_env \<Rightarrow> worker \<Rightarrow> status \<times> worker" where
  "iteration lib symbol ev w =
     (case Wait (limiter w) (wait_clock ev) of
        None \<Rightarrow> (Blocked, w)
      | Some (rl', rest) \<Rightarrow>
          let w1 = w\<lparr>limiter := rl', calls := calls w @ [fromId w]\<rparr> in
          (case fetchTrades lib (clientDo ev) symbol (fromId w) of
             Inl err \<Rightarrow> (Running, w1)
           | Inr trades \<Rightarrow>
               if length trades = 0 then (Done, w1)
               else
                 let groupedTrades = groupTradesByDate trades;
                     fs' = saveGroups lib (io_faults ev) symbol groupedTrades (files w1);
                     lastTrade = last trades
                 in (Running, w1\<lparr>files := fs', fromId := TradeId lastTrade + 1\<rparr>)))"

text \<open>
  The loop over a script, one entry per pass. The loop has no bound: a run that has
  not reached \<^verbatim>\<open>break\<close> when the script ends is still \<open>Running\<close>.
\<close>

fun processLoop :: "stdlib \<Rightarrow> string \<Rightarrow> iter_env list \<Rightarrow> worker \<Rightarrow> status \<times> worker" where
  "processLoop lib symbol [] w = (Running, w)"
| "processLoop lib symbol (ev # script) w =
     (case iteration lib symbol ev w of
        (Running, w') \<Rightarrow> processLoop lib symbol script w'
      | (st, w') \<Rightarrow> (st, w'))"

text \<open>\<^verbatim>\<open>processSymbol(symbol, rl)\<close>; \<open>mkdir_ok\<close> is whether \<^verbatim>\<open>os.MkdirAll\<close> succeeded.\<close>

definition processSymbol ::
  "stdlib \<Rightarrow> string \<Rightarrow> bool \<Rightarrow> RateLimiter \<Rightarrow> fsys \<Rightarrow> iter_env list \<Rightarrow> status \<times> worker" where
  "processSymbol lib symbol mkdir_ok rl fs script =
     (if \<not> mkdir_ok then (Aborted, \<lparr>limiter = rl, fromId = 0, files = fs, calls = []\<rparr>)
      else processLoop lib symbol script \<lparr>limiter = rl, fromId = 0, files = fs, calls = []\<rparr>)"

text \<open>
  An assumption on the source, read off a run: every non-empty page that a pass of the
  run fetched ends at a record whose id is not below the \<^verbatim>\<open>fromId\<close> requested
  and is below the largest \<^verbatim>\<open>int64\<close>. The program does not check it.
\<close>

definition page_in_order :: "int64 \<Rightarrow> error + AggTrade list \<Rightarrow> bool" where
  "page_in_order fid r =
     (case r of
        Inl e \<Rightarrow> True
      | Inr trades \<Rightarrow>
          trades = [] \<or>
          (sint fid \<le> sint (TradeId (last trades)) \<and> sint (TradeId (last trades)) < 2 ^ 63 - 1))"

fun source_in_order :: "stdlib \<Rightarrow> string \<Rightarrow> iter_env list \<Rightarrow> worker \<Rightarrow> bool" where
  "source_in_order lib symbol [] w = True"
| "source_in_order lib symbol (ev # script) w =
     ((case Wait (limiter w) (wait_clock ev) of
         None \<Rightarrow> True
       | Some r \<Rightarrow> page_in_order (fromId w) (fetchTrades lib (clientDo ev) symbol (fromId w))) \<and>
      (if fst (iteration lib symbol ev w) = Running
       then source_in_order lib symbol script (snd (iteration lib symbol ev w))
       else True))"

section \<open>Fixtures of the worked examples\<close>

text \<open>
  A CSV encoder for records whose fields need no quoting (fields joined by commas, a
  newline at the end), a decoder that knows four bodies, and scripted passes.
\<close>

fun joinComma :: "string list \<Rightarrow> string" where
  "joinComma [] = []"
| "joinComma [f] = f"
| "joinComma (f # g # fs) = f @ '','' @ joinComma (g # fs)"

definition plainCSV :: "string list \<Rightarrow> string" where
  "plainCSV r = joinComma r @ [CHR 0x0A]"

definition mkTrade :: "int64 \<Rightarrow> int64 \<Rightarrow> AggTrade" where
  "mkTrade i ms =
     \<lparr>TradeId = i, Price = ''0.5'', Quantity = ''2'', FirstId = i, LastId = i,
      Timestamp = ms, IsMaker = False, IsBest = True\<rparr>"

definition testDecode :: "string \<Rightarrow> string + AggTrade list" where
  "testDecode body =
     (if body = ''[]'' then Inr []
      else if body = ''[1,2]'' then Inr [mkTrade 1 1700000000000, mkTrade 2 1700003600000]
      else if body = ''[5]'' then Inr [mkTrade 5 1700000000000]
      else if body = ''[2]'' then Inr [mkTrade 2 1700000000000]
      else Inl ''invalid character'')"

definition testlib :: stdlib where
  "testlib = \<lparr>jsonDecode = testDecode, csvEncode = plainCSV\<rparr>"

definition pass :: "int \<Rightarrow> http_result \<Rightarrow> iter_env" where
  "pass now r = \<lparr>wait_clock = [now], clientDo = (\<lambda>req. r), io_faults = (\<lambda>p. no_faults)\<rparr>"

section \<open>Properties of the rate limiter\<close>

lemma Wait_body_limit: "limitPerMin (snd (Wait_body rl now)) = limitPerMin rl"
  by (simp add: Wait_body_def Wait_reset_def Let_def)

lemma Wait_body_Granted:
  "Wait_body rl now = (Granted, rl') \<Longrightarrow>
     count (Wait_reset rl now) < limitPerMin rl \<and>
     rl' = (Wait_reset rl now)\<lparr>count := count (Wait_reset rl now) + 1\<rparr>"
  by (auto simp: Wait_body_def Wait_reset_def Let_def split: if_splits)

lemma Wait_limit: "Wait rl clock = Some (rl', rest) \<Longrightarrow> limitPerMin rl' = limitPerMin rl"
proof (induction clock arbitrary: rl)
  case Nil
  then show ?case by simp
next
  case (Cons now clock)
  obtain a r where b: "Wait_body rl now = (a, r)" by (cases "Wait_body rl now")
  have l: "limitPerMin r = limitPerMin rl" using Wait_body_limit [of rl now] b by simp
  show ?case
  proof (cases a)
    case Granted
    with Cons.prems b l show ?thesis by auto
  next
    case (Sleep d)
    with Cons.prems b have "Wait r clock = Some (rl', rest)" by simp
    from Cons.IH [OF this] l show ?thesis by simp
  qed
qed

lemma Wait_count: "Wait rl clock = Some (rl', rest) \<Longrightarrow> count rl' \<le> limitPerMin rl'"
proof (induction clock arbitrary: rl)
  case Nil
  then show ?case by simp
next
  case (Cons now clock)
  obtain a r where b: "Wait_body rl now = (a, r)" by (cases "Wait_body rl now")
  show ?case
  proof (cases a)
    case Granted
    with Cons.prems b have "Wait_body rl now = (Granted, rl')" by simp
    from Wait_body_Granted [OF this] show ?thesis
      by (auto simp: Wait_reset_def split: if_splits)
  next
    case (Sleep d)
    with Cons.prems b have "Wait r clock = Some (rl', rest)" by simp
    from Cons.IH [OF this] show ?thesis .
  qed
qed

lemma Wait_body_cases:
  "Wait_body rl now =
    (if now > resetTime rl
     then (if 0 < limitPerMin rl
           then (Granted, rl\<lparr>count := 1, resetTime := now + period\<rparr>)
           else (Sleep period, rl\<lparr>count := 0, resetTime := now + period\<rparr>))
     else (if count rl < limitPerMin rl
           then (Granted, rl\<lparr>count := count rl + 1\<rparr>)
           else (Sleep (resetTime rl - now), rl)))"
  by (simp add: Wait_body_def Wait_reset_def Let_def)

lemma grants_subset: "set (grants rl ts) \<subseteq> set ts"
  by (induction ts arbitrary: rl) (auto simp: Wait_body_cases split: if_splits)

lemma grants_no_slot:
  "limitPerMin rl \<le> 0 \<Longrightarrow> 0 \<le> count rl \<Longrightarrow> grants rl ts = []"
  by (induction ts arbitrary: rl) (auto simp: Wait_body_cases)

lemma filter_above_empty:
  assumes "sorted (t # ts)" "u < t"
  shows "filter (\<lambda>x. x \<le> u) (grants rl ts) = []"
proof -
  have "\<forall>x\<in>set (grants rl ts). \<not> x \<le> u"
    using grants_subset [of rl ts] assms by fastforce
  then show ?thesis by (simp add: filter_empty_conv)
qed

lemma epoch_bound:
  "sorted ts \<Longrightarrow> count rl \<le> limitPerMin rl \<Longrightarrow> 0 \<le> limitPerMin rl \<Longrightarrow> u \<le> resetTime rl \<Longrightarrow>
     int (length (filter (\<lambda>t. t \<le> u) (grants rl ts))) \<le> limitPerMin rl - count rl"
proof (induction ts arbitrary: rl)
  case Nil
  then show ?case by simp
next
  case (Cons t ts)
  have s: "sorted ts" using Cons.prems(1) by simp
  show ?case
  proof (cases "t > resetTime rl")
    case True
    then have "u < t" using Cons.prems(4) by simp
    from filter_above_empty [OF Cons.prems(1) this] True \<open>u < t\<close> Cons.prems(2)
    show ?thesis by (simp add: Wait_body_cases)
  next
    case False
    show ?thesis
    proof (cases "count rl < limitPerMin rl")
      case True
      have "int (length (filter (\<lambda>t. t \<le> u) (grants (rl\<lparr>count := count rl + 1\<rparr>) ts)))
              \<le> limitPerMin (rl\<lparr>count := count rl + 1\<rparr>) - count (rl\<lparr>count := count rl + 1\<rparr>)"
        by (rule Cons.IH) (use s True Cons.prems in simp_all)
      with False True show ?thesis by (simp add: Wait_body_cases)
    next
      case c: False
      have "int (length (filter (\<lambda>t. t \<le> u) (grants rl ts))) \<le> limitPerMin rl - count rl"
        by (rule Cons.IH) (use s Cons.prems in simp_all)
      with False c show ?thesis by (simp add: Wait_body_cases)
    qed
  qed
qed

lemma window_bound_from:
  "sorted ts \<Longrightarrow> count rl \<le> limitPerMin rl \<Longrightarrow> 0 \<le> limitPerMin rl \<Longrightarrow>
   \<forall>t\<in>set ts. u - period \<le> t \<Longrightarrow>
     int (length (filter (\<lambda>t. t \<le> u) (grants rl ts))) \<le> 2 * limitPerMin rl - count rl"
proof (induction ts arbitrary: rl)
  case Nil
  then show ?case by simp
next
  case (Cons t ts)
  have s: "sorted ts" using Cons.prems(1) by simp
  have lo: "\<forall>x\<in>set ts. u - period \<le> x" using Cons.prems(4) by simp
  show ?case
  proof (cases "t > resetTime rl")
    case True
    let ?r = "rl\<lparr>count := (if 0 < limitPerMin rl then 1 else 0), resetTime := t + period\<rparr>"
    have "int (length (filter (\<lambda>t. t \<le> u) (grants ?r ts))) \<le> limitPerMin ?r - count ?r"
      by (rule epoch_bound) (use s Cons.prems in auto)
    with True Cons.prems(2,3) show ?thesis by (auto simp: Wait_body_cases)
  next
    case False
    show ?thesis
    proof (cases "count rl < limitPerMin rl")
      case True
      have "int (length (filter (\<lambda>t. t \<le> u) (grants (rl\<lparr>count := count rl + 1\<rparr>) ts)))
              \<le> 2 * limitPerMin (rl\<lparr>count := count rl + 1\<rparr>) - count (rl\<lparr>count := count rl + 1\<rparr>)"
        by (rule Cons.IH) (use s lo True Cons.prems in simp_all)
      with False True show ?thesis by (simp add: Wait_body_cases)
    next
      case c: False
      have "int (length (filter (\<lambda>t. t \<le> u) (grants rl ts))) \<le> 2 * limitPerMin rl - count rl"
        by (rule Cons.IH) (use s lo Cons.prems in simp_all)
      with False c show ?thesis by (simp add: Wait_body_cases)
    qed
  qed
qed

lemma Wait_body_inv:
  "0 \<le> count rl \<Longrightarrow> count rl \<le> limitPerMin rl \<Longrightarrow>
   0 \<le> count (snd (Wait_body rl t)) \<and> count (snd (Wait_body rl t)) \<le> limitPerMin (snd (Wait_body rl t))"
  by (auto simp: Wait_body_cases)

lemma window_bound:
  "sorted ts \<Longrightarrow> 0 \<le> count rl \<Longrightarrow> count rl \<le> limitPerMin rl \<Longrightarrow>
     int (length (filter (\<lambda>t. w \<le> t \<and> t \<le> w + period) (grants rl ts))) \<le> 2 * limitPerMin rl"
proof (induction ts arbitrary: rl)
  case Nil
  then show ?case by simp
next
  case (Cons t ts)
  show ?case
  proof (cases "t < w")
    case True
    obtain a b where ab: "Wait_body rl t = (a, b)" by (cases "Wait_body rl t")
    have l: "limitPerMin b = limitPerMin rl" using Wait_body_limit [of rl t] ab by simp
    have i: "0 \<le> count b \<and> count b \<le> limitPerMin b"
      using Wait_body_inv [of rl t] Cons.prems ab by simp
    have "int (length (filter (\<lambda>t. w \<le> t \<and> t \<le> w + period) (grants b ts))) \<le> 2 * limitPerMin b"
      by (rule Cons.IH) (use Cons.prems i in simp_all)
    with True ab l show ?thesis by (cases a) simp_all
  next
    case False
    have all: "\<forall>x\<in>set (t # ts). w \<le> x" using False Cons.prems(1) by auto
    have "set (grants rl (t # ts)) \<subseteq> set (t # ts)" by (rule grants_subset)
    with all have "\<forall>x\<in>set (grants rl (t # ts)). w \<le> x" by blast
    then have eq: "filter (\<lambda>t. w \<le> t \<and> t \<le> w + period) (grants rl (t # ts))
        = filter (\<lambda>t. t \<le> w + period) (grants rl (t # ts))"
      by (intro filter_cong) auto
    have "int (length (filter (\<lambda>t. t \<le> w + period) (grants rl (t # ts)))) \<le> 2 * limitPerMin rl - count rl"
      by (rule window_bound_from) (use Cons.prems all in simp_all)
    with eq Cons.prems(2) show ?thesis by simp
  qed
qed

lemma Wait_returns_at:
  "Wait rl clock = Some (rl', rest) \<Longrightarrow>
   \<exists>pre now. clock = pre @ now # rest \<and> grants rl pre = [] \<and>
      Wait_body (run rl pre) now = (Granted, rl')"
proof (induction clock arbitrary: rl)
  case Nil
  then show ?case by simp
next
  case (Cons t clock)
  obtain a b where ab: "Wait_body rl t = (a, b)" by (cases "Wait_body rl t")
  show ?case
  proof (cases a)
    case Granted
    with Cons.prems ab have "t # clock = [] @ t # rest \<and> grants rl [] = [] \<and>
        Wait_body (run rl []) t = (Granted, rl')" by simp
    then show ?thesis by blast
  next
    case (Sleep d)
    with Cons.prems ab have "Wait b clock = Some (rl', rest)" by simp
    from Cons.IH [OF this] obtain pre now where
      p: "clock = pre @ now # rest" "grants b pre = []" "Wait_body (run b pre) now = (Granted, rl')"
      by blast
    from p ab Sleep have "t # clock = (t # pre) @ now # rest \<and> grants rl (t # pre) = [] \<and>
        Wait_body (run rl (t # pre)) now = (Granted, rl')" by simp
    then show ?thesis by blast
  qed
qed


text \<open>
  C1 (amended). The limiter counts in fixed windows: a window starts at a reset and its
  boundary is 61 seconds later. For clock readings that do not decrease, at most
  \<open>limitPerMin\<close> grants fall between a state and its window boundary (so at most
  \<open>limitPerMin\<close> between two resets), and a sliding window of 61 seconds holds at
  most twice \<open>limitPerMin\<close> grants: the end of one window and the start of the next
  can both lie in it. A \<^verbatim>\<open>Wait\<close> call returns at the first pass that, after the
  lazy reset, finds the count below \<open>limitPerMin\<close>, and takes that slot; no earlier
  pass of the call was granted.
\<close>

theorem C1_two_limits_per_sliding_window:
  "(sorted ts \<longrightarrow>
      int (length (filter (\<lambda>t. w \<le> t \<and> t \<le> w + period) (grants (NewRateLimiter limit t0) ts)))
        \<le> 2 * max 0 limit) \<and>
   (sorted ts \<and> 0 \<le> count rl \<and> count rl \<le> limitPerMin rl \<longrightarrow>
      int (length (filter (\<lambda>t. t \<le> resetTime rl) (grants rl ts))) \<le> limitPerMin rl - count rl) \<and>
   (Wait rl clock = Some (rl', rest) \<longrightarrow>
      (\<exists>pre now. clock = pre @ now # rest \<and> grants rl pre = [] \<and>
         count (Wait_reset (run rl pre) now) < limitPerMin rl \<and>
         count rl' = count (Wait_reset (run rl pre) now) + 1))"
proof (intro conjI impI)
  assume s: "sorted ts"
  show "int (length (filter (\<lambda>t. w \<le> t \<and> t \<le> w + period) (grants (NewRateLimiter limit t0) ts)))
        \<le> 2 * max 0 limit"
  proof (cases "limit \<le> 0")
    case True
    then have "grants (NewRateLimiter limit t0) ts = []"
      by (intro grants_no_slot) (simp_all add: NewRateLimiter_def)
    with True show ?thesis by simp
  next
    case False
    have "int (length (filter (\<lambda>t. w \<le> t \<and> t \<le> w + period) (grants (NewRateLimiter limit t0) ts)))
        \<le> 2 * limitPerMin (NewRateLimiter limit t0)"
      by (rule window_bound) (use s False in \<open>simp_all add: NewRateLimiter_def\<close>)
    with False show ?thesis by (simp add: NewRateLimiter_def)
  qed
next
  assume a: "sorted ts \<and> 0 \<le> count rl \<and> count rl \<le> limitPerMin rl"
  show "int (length (filter (\<lambda>t. t \<le> resetTime rl) (grants rl ts))) \<le> limitPerMin rl - count rl"
    by (rule epoch_bound) (use a in simp_all)
next
  assume "Wait rl clock = Some (rl', rest)"
  from Wait_returns_at [OF this] obtain pre now where
    p: "clock = pre @ now # rest" "grants rl pre = []" "Wait_body (run rl pre) now = (Granted, rl')"
    by blast
  have l: "limitPerMin (run rl pre) = limitPerMin rl"
    by (induction pre arbitrary: rl) (simp_all add: Wait_body_limit)
  from Wait_body_Granted [OF p(3)] l p(1,2)
  show "\<exists>pre now. clock = pre @ now # rest \<and> grants rl pre = [] \<and>
         count (Wait_reset (run rl pre) now) < limitPerMin rl \<and>
         count rl' = count (Wait_reset (run rl pre) now) + 1"
    by (intro exI [of _ pre] exI [of _ now]) simp
qed

theorem C1_witness:
  "sorted [60000000000, 61000000000, 62000000000, 63000000000 :: int] \<and>
   grants (NewRateLimiter 2 0) [60000000000, 61000000000, 62000000000, 63000000000]
     = [60000000000, 61000000000, 62000000000, 63000000000] \<and>
   int (length (filter (\<lambda>t. 60000000000 \<le> t \<and> t \<le> 60000000000 + period)
      (grants (NewRateLimiter 2 0) [60000000000, 61000000000, 62000000000, 63000000000])))
     \<le> 2 * max 0 2 \<and>
   int (length (filter (\<lambda>t. t \<le> resetTime (NewRateLimiter 2 0))
      (grants (NewRateLimiter 2 0) [60000000000, 61000000000, 62000000000, 63000000000])))
     \<le> limitPerMin (NewRateLimiter 2 0) - count (NewRateLimiter 2 0) \<and>
   Wait (NewRateLimiter 2 0) [60000000000] =
     Some (\<lparr>count = 1, limitPerMin = 2, resetTime = 61000000000\<rparr>, []) \<and>
   (\<exists>pre now. [60000000000] = pre @ now # [] \<and> grants (NewRateLimiter 2 0) pre = [] \<and>
      count (Wait_reset (run (NewRateLimiter 2 0) pre) now) < limitPerMin (NewRateLimiter 2 0) \<and>
      count \<lparr>count = 1, limitPerMin = 2, resetTime = 61000000000\<rparr>
        = count (Wait_reset (run (NewRateLimiter 2 0) pre) now) + 1)"
  using C1_two_limits_per_sliding_window
    [of "[60000000000, 61000000000, 62000000000, 63000000000]" 60000000000 2 0
        "NewRateLimiter 2 0" "[60000000000]"
        "\<lparr>count = 1, limitPerMin = 2, resetTime = 61000000000\<rparr>" "[]"]
  by (simp add: NewRateLimiter_def Wait_body_cases period_def)

text \<open>
  With a limit of 2 and a limiter created at time 0, passes at 60 s, 61 s, 62 s and 63 s
  are all granted: the first two end the first window, the third resets. The four
  grants lie within 3 seconds.
\<close>

theorem C1_counterexample:
  "grants (NewRateLimiter 2 0) [60000000000, 61000000000, 62000000000, 63000000000]
     = [60000000000, 61000000000, 62000000000, 63000000000] \<and>
   (63000000000::int) \<le> 60000000000 + period \<and>
   \<not> int (length (filter (\<lambda>t. 60000000000 \<le> t \<and> t \<le> 60000000000 + period)
      (grants (NewRateLimiter 2 0) [60000000000, 61000000000, 62000000000, 63000000000])))
     \<le> limitPerMin (NewRateLimiter 2 0)"
  by (simp add: NewRateLimiter_def Wait_body_cases period_def)

text \<open>
  C2. After any completed \<^verbatim>\<open>Wait\<close> call, from whatever limiter state it started
  and whatever the clock read, \<open>count \<le> limitPerMin\<close>. The window is reset lazily,
  by the first pass that reads a time after the boundary: that pass sets the count to 0
  and the boundary to the reading plus 61 seconds before it looks for a slot; a pass
  that reads a time not after the boundary resets nothing. For the call itself: a
  \<^verbatim>\<open>Wait\<close> whose first reading is after the boundary returns at once with count 1
  and the boundary at that reading plus 61 seconds when the limit is positive, and goes
  on from the reset state when it is not; a \<^verbatim>\<open>Wait\<close> whose first reading is not
  after the boundary returns with the count one higher and the boundary unchanged when
  a slot is free, and otherwise goes on to its next reading with the limiter unchanged.
\<close>

theorem C2_count_le_limit_and_lazy_reset:
  "(Wait rl clock = Some (rl', rest) \<longrightarrow> count rl' \<le> limitPerMin rl') \<and>
   (now > resetTime rl \<longrightarrow>
      count (Wait_reset rl now) = 0 \<and>
      resetTime (Wait_reset rl now) = now + 61 * 1000000000 \<and>
      resetTime (snd (Wait_body rl now)) = now + 61 * 1000000000 \<and>
      count (snd (Wait_body rl now)) = (if 0 < limitPerMin rl then 1 else 0)) \<and>
   (now \<le> resetTime rl \<longrightarrow>
      Wait_reset rl now = rl \<and> resetTime (snd (Wait_body rl now)) = resetTime rl) \<and>
   (now > resetTime rl \<and> 0 < limitPerMin rl \<longrightarrow>
      Wait rl (now # later) = Some (rl\<lparr>count := 1, resetTime := now + 61 * 1000000000\<rparr>, later)) \<and>
   (now > resetTime rl \<and> limitPerMin rl \<le> 0 \<longrightarrow>
      Wait rl (now # later) = Wait (rl\<lparr>count := 0, resetTime := now + 61 * 1000000000\<rparr>) later) \<and>
   (now \<le> resetTime rl \<and> count rl < limitPerMin rl \<longrightarrow>
      Wait rl (now # later) = Some (rl\<lparr>count := count rl + 1\<rparr>, later)) \<and>
   (now \<le> resetTime rl \<and> limitPerMin rl \<le> count rl \<longrightarrow>
      Wait rl (now # later) = Wait rl later)"
proof (intro conjI impI)
  show "count rl' \<le> limitPerMin rl'" if "Wait rl clock = Some (rl', rest)"
    using that by (rule Wait_count)
qed (auto simp: Wait_body_cases Wait_reset_def period_def)

theorem C2_witness:
  "Wait (NewRateLimiter 2 0) [1000000000] =
     Some (\<lparr>count = 1, limitPerMin = 2, resetTime = 61000000000\<rparr>, []) \<and>
   count \<lparr>count = 1, limitPerMin = 2, resetTime = 61000000000\<rparr> \<le> (2::int) \<and>
   (62000000000::int) > resetTime \<lparr>count = 2, limitPerMin = 2, resetTime = 61000000000\<rparr> \<and>
   Wait \<lparr>count = 2, limitPerMin = 2, resetTime = 61000000000\<rparr> [62000000000, 63000000000] =
     Some (\<lparr>count = 1, limitPerMin = 2, resetTime = 123000000000\<rparr>, [63000000000]) \<and>
   Wait \<lparr>count = 2, limitPerMin = 2, resetTime = 61000000000\<rparr> [61000000000, 62000000000] =
     Wait \<lparr>count = 2, limitPerMin = 2, resetTime = 61000000000\<rparr> [62000000000] \<and>
   Wait \<lparr>count = 1, limitPerMin = 2, resetTime = 61000000000\<rparr> [61000000000] =
     Some (\<lparr>count = 2, limitPerMin = 2, resetTime = 61000000000\<rparr>, []) \<and>
   Wait \<lparr>count = 0, limitPerMin = 0, resetTime = 61000000000\<rparr> [62000000000] = None \<and>
   count (Wait_reset (NewRateLimiter 2 0) 62000000000) = 0 \<and>
   resetTime (Wait_reset (NewRateLimiter 2 0) 62000000000) = 123000000000 \<and>
   Wait_reset (NewRateLimiter 2 0) 61000000000 = NewRateLimiter 2 0"
  using C2_count_le_limit_and_lazy_reset [of "NewRateLimiter 2 0" "[1000000000]"
        "\<lparr>count = 1, limitPerMin = 2, resetTime = 61000000000\<rparr>" "[]" 62000000000 "[]"]
    C2_count_le_limit_and_lazy_reset [of "\<lparr>count = 2, limitPerMin = 2, resetTime = 61000000000\<rparr>" "[]" undefined undefined
        62000000000 "[63000000000]"]
    C2_count_le_limit_and_lazy_reset [of "\<lparr>count = 2, limitPerMin = 2, resetTime = 61000000000\<rparr>" "[]" undefined undefined
        61000000000 "[62000000000]"]
    C2_count_le_limit_and_lazy_reset [of "\<lparr>count = 1, limitPerMin = 2, resetTime = 61000000000\<rparr>" "[]" undefined undefined
        61000000000 "[]"]
    C2_count_le_limit_and_lazy_reset [of "\<lparr>count = 0, limitPerMin = 0, resetTime = 61000000000\<rparr>" "[]" undefined undefined
        62000000000 "[]"]
    C2_count_le_limit_and_lazy_reset [of "NewRateLimiter 2 0" "[]" undefined undefined 61000000000 "[]"]
  by (simp add: NewRateLimiter_def Wait_body_cases Wait_reset_def period_def)

section \<open>Properties of \<^verbatim>\<open>fetchTrades\<close>\<close>

text \<open>
  C6 (amended). \<^verbatim>\<open>fetchTrades(symbol, fromId)\<close> returns an error exactly when the
  transport fails, the response status is not 200, or the body does not decode; a
  status other than 200 gives the error that carries the status code and the body. A
  response with status 200 whose body decodes to the empty array is a success with no
  records.
\<close>

theorem C6_fetchTrades_error_iff:
  "(isl (fetchTrades lib client symbol fid) \<longleftrightarrow>
      (\<exists>m. client (fetchRequest symbol fid) = DoError m) \<or>
      (\<exists>statusCode body. client (fetchRequest symbol fid) = Response statusCode body \<and>
          (statusCode \<noteq> 200 \<or> isl (jsonDecode lib body)))) \<and>
   (client (fetchRequest symbol fid) = Response statusCode body \<and> statusCode \<noteq> 200 \<longrightarrow>
      fetchTrades lib client symbol fid = Inl (APIError statusCode body)) \<and>
   (client (fetchRequest symbol fid) = Response 200 body \<and> jsonDecode lib body = Inr [] \<longrightarrow>
      fetchTrades lib client symbol fid = Inr [])"
  by (auto simp: fetchTrades_def split: http_result.splits sum.splits)

theorem C6_witness:
  "isl (fetchTrades testlib (\<lambda>req. Response 404 ''not found'') ''ETHBTC'' 0) \<and>
   fetchTrades testlib (\<lambda>req. Response 404 ''not found'') ''ETHBTC'' 0
     = Inl (APIError 404 ''not found'') \<and>
   jsonDecode testlib ''[]'' = Inr [] \<and>
   fetchTrades testlib (\<lambda>req. Response 200 ''[]'') ''ETHBTC'' 0 = Inr []"
  using C6_fetchTrades_error_iff [of testlib "\<lambda>req. Response 404 ''not found''" "''ETHBTC''" 0 404 "''not found''"]
    C6_fetchTrades_error_iff [of testlib "\<lambda>req. Response 200 ''[]''" "''ETHBTC''" 0 200 "''[]''"]
  by (simp add: testlib_def testDecode_def)

text \<open>
  Status 201 is a 2xx success and the body \<^verbatim>\<open>[]\<close> decodes to the empty array, and
  the call still returns the error of the status check.
\<close>

theorem C6_counterexample:
  "(200::int) \<le> 201 \<and> (201::int) < 300 \<and> jsonDecode testlib ''[]'' = Inr [] \<and>
   fetchTrades testlib (\<lambda>req. Response 201 ''[]'') ''ETHBTC'' 0 = Inl (APIError 201 ''[]'')"
  by (simp add: fetchTrades_def testlib_def testDecode_def)

section \<open>Properties of \<^verbatim>\<open>groupTradesByDate\<close>\<close>

text \<open>
  C10. \<^verbatim>\<open>groupTradesByDate\<close> is defined on every page (a fold over the page);
  on the empty page it returns the empty mapping: no entry, no key.
\<close>

theorem C10_groupTradesByDate_empty:
  "groupTradesByDate [] = [] \<and> dom (map_of (groupTradesByDate [])) = {}"
  by (simp add: groupTradesByDate_def)








lemma utcDate_example: "utcDate 1700000000000 = ''2023-11-14''"
  by code_simp

lemma utcDate_example2: "utcDate 1700003600000 = ''2023-11-14''"
  by code_simp



lemma mkTrade_fields: "TradeId (mkTrade i ms) = i" "Timestamp (mkTrade i ms) = ms"
  by (simp_all add: mkTrade_def)

lemma tradeRecord_1: "tradeRecord (mkTrade 1 1700000000000) = [''1'', ''0.5'', ''2'', ''1700000000000'', ''false'']"
  by (simp add: tradeRecord_def mkTrade_def FormatInt_def Itoa_def FormatBool_def digits10.simps digit_char_def)

lemma tradeRecord_2: "tradeRecord (mkTrade 2 1700003600000) = [''2'', ''0.5'', ''2'', ''1700003600000'', ''false'']"
  by (simp add: tradeRecord_def mkTrade_def FormatInt_def Itoa_def FormatBool_def digits10.simps digit_char_def)

lemma group_example:
  "groupTradesByDate [mkTrade 1 1700000000000, mkTrade 2 1700003600000] =
     [(''2023-11-14'', [[''1'', ''0.5'', ''2'', ''1700000000000'', ''false''],
                        [''2'', ''0.5'', ''2'', ''1700003600000'', ''false'']])]"
  by (simp add: groupTradesByDate_def groupStep_def Let_def tradeRecord_1 tradeRecord_2
        utcDate_example utcDate_example2 mkTrade_fields)


section \<open>Properties of \<^verbatim>\<open>saveToCSV\<close>\<close>

lemma saveToCSV_ok:
  "\<not> open_fault flt \<Longrightarrow> write_fault flt = None \<Longrightarrow>
   saveToCSV lib flt fs filePath records =
     (None, fs(filePath \<mapsto> (case fs filePath of None \<Rightarrow> [] | Some bytes \<Rightarrow> bytes) @
        (if os_Stat flt fs filePath = StatNotExist then csvEncode lib header else []) @
        concat (map (csvEncode lib) records)))"
  by (simp add: saveToCSV_def Let_def)








lemma testlib_csv: "csvEncode testlib = plainCSV"
  by (simp add: testlib_def)

lemma plainCSV_header: "plainCSV header = ''tradeId,price,quantity,timestamp,isBuyerMaker'' @ [CHR 0x0A]"
  by (simp add: plainCSV_def header_def)

lemma plainCSV_row1:
  "plainCSV [''1'', ''0.5'', ''2'', ''1700000000000'', ''false''] = ''1,0.5,2,1700000000000,false'' @ [CHR 0x0A]"
  by (simp add: plainCSV_def)

lemma plainCSV_row2:
  "plainCSV [''2'', ''0.5'', ''2'', ''1700003600000'', ''false''] = ''2,0.5,2,1700003600000,false'' @ [CHR 0x0A]"
  by (simp add: plainCSV_def)



text \<open>
  C9. When \<^verbatim>\<open>os.Stat\<close> fails with an error other than not-exist,
  \<^verbatim>\<open>isNewFile\<close> is false: a call that then opens and writes without error appends
  the lines of the rows only. If the path did not exist, the file created by the open
  holds the rows and no header.
\<close>

theorem C9_stat_error_means_no_header:
  "stat_fault flt \<longrightarrow>
     os_Stat flt fs filePath = StatOtherError \<and>
     (\<not> open_fault flt \<and> write_fault flt = None \<longrightarrow>
        saveToCSV lib flt fs filePath records =
          (None, fs(filePath \<mapsto> (case fs filePath of None \<Rightarrow> [] | Some bytes \<Rightarrow> bytes) @
                       concat (map (csvEncode lib) records)))) \<and>
     (fs filePath = None \<and> \<not> open_fault flt \<and> write_fault flt = None \<longrightarrow>
        snd (saveToCSV lib flt fs filePath records) filePath
          = Some (concat (map (csvEncode lib) records)))"
  by (simp add: saveToCSV_ok os_Stat_def)

theorem C9_witness:
  "stat_fault \<lparr>stat_fault = True, open_fault = False, write_fault = None\<rparr> \<and>
   os_Stat \<lparr>stat_fault = True, open_fault = False, write_fault = None\<rparr> Map.empty
      ''ETHBTC/2023-11-14.csv'' = StatOtherError \<and>
   snd (saveToCSV testlib \<lparr>stat_fault = True, open_fault = False, write_fault = None\<rparr> Map.empty
          ''ETHBTC/2023-11-14.csv'' [[''1'', ''0.5'', ''2'', ''1700000000000'', ''false'']])
      ''ETHBTC/2023-11-14.csv''
     = Some (''1,0.5,2,1700000000000,false'' @ [CHR 0x0A])"
  using C9_stat_error_means_no_header
     [of "\<lparr>stat_fault = True, open_fault = False, write_fault = None\<rparr>" Map.empty
         "''ETHBTC/2023-11-14.csv''" testlib "[[''1'', ''0.5'', ''2'', ''1700000000000'', ''false'']]"]
  by (simp add: testlib_def plainCSV_row1)

section \<open>Properties of \<^verbatim>\<open>processSymbol\<close>\<close>

lemma iteration_Blocked:
  "Wait (limiter w) (wait_clock ev) = None \<Longrightarrow> iteration lib symbol ev w = (Blocked, w)"
  by (simp add: iteration_def)

lemma iteration_error:
  "Wait (limiter w) (wait_clock ev) = Some (rl', rest) \<Longrightarrow>
   fetchTrades lib (clientDo ev) symbol (fromId w) = Inl e \<Longrightarrow>
   iteration lib symbol ev w = (Running, w\<lparr>limiter := rl', calls := calls w @ [fromId w]\<rparr>)"
  by (simp add: iteration_def)


lemma iteration_page:
  "Wait (limiter w) (wait_clock ev) = Some (rl', rest) \<Longrightarrow>
   fetchTrades lib (clientDo ev) symbol (fromId w) = Inr trades \<Longrightarrow> trades \<noteq> [] \<Longrightarrow>
   iteration lib symbol ev w =
     (Running, w\<lparr>limiter := rl', calls := calls w @ [fromId w],
        files := saveGroups lib (io_faults ev) symbol (groupTradesByDate trades) (files w),
        fromId := TradeId (last trades) + 1\<rparr>)"
  by (simp add: iteration_def Let_def)

lemma iteration_fromId:
  "fromId (snd (iteration lib symbol ev w)) =
     (case Wait (limiter w) (wait_clock ev) of
        None \<Rightarrow> fromId w
      | Some r \<Rightarrow>
          (case fetchTrades lib (clientDo ev) symbol (fromId w) of
             Inl e \<Rightarrow> fromId w
           | Inr trades \<Rightarrow> if trades = [] then fromId w else TradeId (last trades) + 1))"
  by (simp add: iteration_def Let_def split: option.splits sum.splits prod.splits)



lemma processLoop_step:
  "processLoop lib symbol (ev # script) w =
     (if fst (iteration lib symbol ev w) = Running
      then processLoop lib symbol script (snd (iteration lib symbol ev w))
      else iteration lib symbol ev w)"
  by (cases "iteration lib symbol ev w"; cases "fst (iteration lib symbol ev w)") auto



lemma processLoop_append:
  "processLoop lib symbol (s1 @ s2) w =
     (if fst (processLoop lib symbol s1 w) = Running
      then processLoop lib symbol s2 (snd (processLoop lib symbol s1 w))
      else processLoop lib symbol s1 w)"
  by (induction s1 arbitrary: w) (simp_all del: processLoop.simps(2) add: processLoop_step)

lemma sint_succ:
  fixes x :: int64
  assumes "sint x < 2 ^ 63 - 1"
  shows "sint (x + 1) = sint x + 1"
proof -
  have "- (2 ^ 63) \<le> sint x" using sint_ge [of x] by simp
  with assms show ?thesis
    by (simp add: sint_word_ariths signed_take_bit_int_eq_self)
qed

lemma sint_succ_wrap:
  fixes x :: int64
  assumes "sint x = 2 ^ 63 - 1"
  shows "sint (x + 1) = - (2 ^ 63)"
proof -
  have "x = word_of_int (sint x)" by simp
  with assms have "x = 9223372036854775807" by simp
  then show ?thesis by simp
qed

lemma iteration_mono:
  assumes "case Wait (limiter w) (wait_clock ev) of
         None \<Rightarrow> True
       | Some r \<Rightarrow> page_in_order (fromId w) (fetchTrades lib (clientDo ev) symbol (fromId w))"
  shows "sint (fromId w) \<le> sint (fromId (snd (iteration lib symbol ev w)))"
proof (cases "\<exists>r trades. Wait (limiter w) (wait_clock ev) = Some r \<and>
    fetchTrades lib (clientDo ev) symbol (fromId w) = Inr trades \<and> trades \<noteq> []")
  case True
  then obtain r trades where t: "Wait (limiter w) (wait_clock ev) = Some r"
    "fetchTrades lib (clientDo ev) symbol (fromId w) = Inr trades" "trades \<noteq> []" by blast
  with assms have b: "sint (fromId w) \<le> sint (TradeId (last trades))"
    "sint (TradeId (last trades)) < 2 ^ 63 - 1" by (simp_all add: page_in_order_def)
  from t have "fromId (snd (iteration lib symbol ev w)) = TradeId (last trades) + 1"
    by (simp add: iteration_fromId)
  with b sint_succ [OF b(2)] show ?thesis by simp
next
  case False
  then have "fromId (snd (iteration lib symbol ev w)) = fromId w"
    by (auto simp: iteration_fromId split: option.splits sum.splits)
  then show ?thesis by simp
qed

lemma processLoop_mono:
  "source_in_order lib symbol script w \<Longrightarrow>
   sint (fromId w) \<le> sint (fromId (snd (processLoop lib symbol script w)))"
proof (induction script arbitrary: w)
  case Nil
  then show ?case by simp
next
  case (Cons ev script)
  have step: "sint (fromId w) \<le> sint (fromId (snd (iteration lib symbol ev w)))"
    by (rule iteration_mono) (use Cons.prems in simp)
  show ?case
  proof (cases "fst (iteration lib symbol ev w) = Running")
    case True
    have "sint (fromId (snd (iteration lib symbol ev w)))
        \<le> sint (fromId (snd (processLoop lib symbol script (snd (iteration lib symbol ev w)))))"
      by (rule Cons.IH) (use Cons.prems True in simp)
    with step True show ?thesis by (simp del: processLoop.simps(2) add: processLoop_step)
  next
    case False
    with step show ?thesis by (simp del: processLoop.simps(2) add: processLoop_step)
  qed
qed

lemma source_in_order_append:
  "source_in_order lib symbol (s1 @ s2) w \<Longrightarrow> fst (processLoop lib symbol s1 w) = Running \<Longrightarrow>
   source_in_order lib symbol s2 (snd (processLoop lib symbol s1 w))"
proof (induction s1 arbitrary: w)
  case Nil
  then show ?case by simp
next
  case (Cons ev s1)
  show ?case
  proof (cases "fst (iteration lib symbol ev w) = Running")
    case True
    with Cons.prems have a: "source_in_order lib symbol (s1 @ s2) (snd (iteration lib symbol ev w))"
      "fst (processLoop lib symbol s1 (snd (iteration lib symbol ev w))) = Running"
      by (simp_all del: processLoop.simps(2) add: processLoop_step)
    from Cons.IH [OF this] True show ?thesis
      by (simp del: processLoop.simps(2) add: processLoop_step)
  next
    case False
    with Cons.prems show ?thesis by (simp del: processLoop.simps(2) add: processLoop_step)
  qed
qed

lemma processLoop_prefix_mono:
  assumes "source_in_order lib symbol (s1 @ s2) w"
  shows "sint (fromId (snd (processLoop lib symbol s1 w)))
           \<le> sint (fromId (snd (processLoop lib symbol (s1 @ s2) w)))"
proof (cases "fst (processLoop lib symbol s1 w) = Running")
  case True
  from processLoop_mono [OF source_in_order_append [OF assms True]] True
  show ?thesis by (simp add: processLoop_append)
next
  case False
  then show ?thesis by (simp add: processLoop_append)
qed


lemma Wait_first_pass:
  "Wait (NewRateLimiter maxReqPerMin 0) [1000000000]
     = Some (\<lparr>count = 1, limitPerMin = 1499, resetTime = 61000000000\<rparr>, [])"
  by (simp add: NewRateLimiter_def maxReqPerMin_def Wait_body_cases period_def)

lemma Wait_second_pass:
  "Wait \<lparr>count = 1, limitPerMin = 1499, resetTime = 61000000000\<rparr> [2000000000]
     = Some (\<lparr>count = 2, limitPerMin = 1499, resetTime = 61000000000\<rparr>, [])"
  by (simp add: Wait_body_cases)

lemma fetch_fixture:
  "fetchTrades testlib (clientDo (pass t (Response 200 ''[1,2]''))) symbol fid
     = Inr [mkTrade 1 1700000000000, mkTrade 2 1700003600000]"
  "fetchTrades testlib (clientDo (pass t (Response 200 ''[]''))) symbol fid = Inr []"
  "fetchTrades testlib (clientDo (pass t (Response 200 ''[5]''))) symbol fid = Inr [mkTrade 5 1700000000000]"
  "fetchTrades testlib (clientDo (pass t (Response 200 ''[2]''))) symbol fid = Inr [mkTrade 2 1700000000000]"
  "fetchTrades testlib (clientDo (pass t (Response 500 ''busy''))) symbol fid = Inl (APIError 500 ''busy'')"
  by (simp_all add: fetchTrades_def pass_def testlib_def testDecode_def)

lemma pass_clock: "wait_clock (pass t r) = [t]" "io_faults (pass t r) = (\<lambda>p. no_faults)"
  by (simp_all add: pass_def)





lemma processLoop_single: "processLoop lib symbol [ev] w = iteration lib symbol ev w"
  by (cases "iteration lib symbol ev w"; cases "fst (iteration lib symbol ev w)") auto

lemma iteration_calls:
  "Wait (limiter w) (wait_clock ev) = Some (rl', rest) \<Longrightarrow>
   calls (snd (iteration lib symbol ev w)) = calls w @ [fromId w]"
  by (simp add: iteration_def Let_def split: sum.splits)

lemma query_limit: "Itoa limitPerReq = ''1000''"
  by (simp add: Itoa_def limitPerReq_def digits10.simps digit_char_def)

text \<open>
  C4 (amended). A pass that fetches a non-empty page whose last record has id \<open>X\<close>
  leaves the cursor at \<open>X + 1\<close> computed in \<^verbatim>\<open>int64\<close> and goes round again;
  the next fetch call of the worker is \<^verbatim>\<open>fetchTrades\<close> with that cursor, whose
  request carries \<^verbatim>\<open>fromId\<close> as its decimal text. For \<open>X\<close> below the largest
  \<^verbatim>\<open>int64\<close> the cursor is the integer \<open>X + 1\<close>; for \<open>X\<close> the largest
  \<^verbatim>\<open>int64\<close> the addition wraps and the cursor is the smallest \<^verbatim>\<open>int64\<close>.
\<close>

theorem C4_next_fetch_uses_last_id_plus_one:
  "Wait (limiter w) (wait_clock ev) = Some (rl', rest) \<and>
   fetchTrades lib (clientDo ev) symbol (fromId w) = Inr trades \<and> trades \<noteq> [] \<longrightarrow>
     fst (iteration lib symbol ev w) = Running \<and>
     fromId (snd (iteration lib symbol ev w)) = TradeId (last trades) + 1 \<and>
     (Wait rl' (wait_clock ev2) = Some (rl2, rest2) \<longrightarrow>
        calls (snd (processLoop lib symbol [ev, ev2] w))
          = calls w @ [fromId w, TradeId (last trades) + 1]) \<and>
     reqQuery (fetchRequest symbol (TradeId (last trades) + 1))
       = [(''symbol'', symbol), (''limit'', ''1000''),
          (''fromId'', FormatInt (TradeId (last trades) + 1))] \<and>
     (sint (TradeId (last trades)) < 2 ^ 63 - 1 \<longrightarrow>
        sint (TradeId (last trades) + 1) = sint (TradeId (last trades)) + 1) \<and>
     (sint (TradeId (last trades)) = 2 ^ 63 - 1 \<longrightarrow>
        sint (TradeId (last trades) + 1) = - (2 ^ 63))"
proof (intro impI)
  assume a: "Wait (limiter w) (wait_clock ev) = Some (rl', rest) \<and>
   fetchTrades lib (clientDo ev) symbol (fromId w) = Inr trades \<and> trades \<noteq> []"
  let ?w1 = "w\<lparr>limiter := rl', calls := calls w @ [fromId w],
        files := saveGroups lib (io_faults ev) symbol (groupTradesByDate trades) (files w),
        fromId := TradeId (last trades) + 1\<rparr>"
  have i1: "iteration lib symbol ev w = (Running, ?w1)"
    by (rule iteration_page [where rest = rest]) (use a in simp_all)
  have next_call: "calls (snd (processLoop lib symbol [ev, ev2] w))
          = calls w @ [fromId w, TradeId (last trades) + 1]"
    if n: "Wait rl' (wait_clock ev2) = Some (rl2, rest2)"
  proof -
    have "processLoop lib symbol [ev, ev2] w = iteration lib symbol ev2 ?w1"
      using processLoop_single [of lib symbol ev2 ?w1] by (simp add: i1)
    moreover have "calls (snd (iteration lib symbol ev2 ?w1)) = calls ?w1 @ [fromId ?w1]"
      by (rule iteration_calls [where rl' = rl2 and rest = rest2]) (use n in simp)
    ultimately show ?thesis by simp
  qed
  show "fst (iteration lib symbol ev w) = Running \<and>
     fromId (snd (iteration lib symbol ev w)) = TradeId (last trades) + 1 \<and>
     (Wait rl' (wait_clock ev2) = Some (rl2, rest2) \<longrightarrow>
        calls (snd (processLoop lib symbol [ev, ev2] w))
          = calls w @ [fromId w, TradeId (last trades) + 1]) \<and>
     reqQuery (fetchRequest symbol (TradeId (last trades) + 1))
       = [(''symbol'', symbol), (''limit'', ''1000''),
          (''fromId'', FormatInt (TradeId (last trades) + 1))] \<and>
     (sint (TradeId (last trades)) < 2 ^ 63 - 1 \<longrightarrow>
        sint (TradeId (last trades) + 1) = sint (TradeId (last trades)) + 1) \<and>
     (sint (TradeId (last trades)) = 2 ^ 63 - 1 \<longrightarrow>
        sint (TradeId (last trades) + 1) = - (2 ^ 63))"
    using next_call sint_succ [of "TradeId (last trades)"] sint_succ_wrap [of "TradeId (last trades)"]
    by (simp add: i1 fetchRequest_def query_limit)
qed

lemma FormatInt_3: "FormatInt 3 = ''3''"
  by (simp add: FormatInt_def Itoa_def digits10.simps digit_char_def)

theorem C4_witness:
  "Wait (NewRateLimiter maxReqPerMin 0) [1000000000]
     = Some (\<lparr>count = 1, limitPerMin = 1499, resetTime = 61000000000\<rparr>, []) \<and>
   fetchTrades testlib (clientDo (pass 1000000000 (Response 200 ''[1,2]''))) ''ETHBTC'' 0
     = Inr [mkTrade 1 1700000000000, mkTrade 2 1700003600000] \<and>
   TradeId (last [mkTrade 1 1700000000000, mkTrade 2 1700003600000]) = 2 \<and>
   fromId (snd (iteration testlib ''ETHBTC'' (pass 1000000000 (Response 200 ''[1,2]''))
      \<lparr>limiter = NewRateLimiter maxReqPerMin 0, fromId = 0, files = Map.empty, calls = []\<rparr>)) = 3 \<and>
   calls (snd (processLoop testlib ''ETHBTC''
      [pass 1000000000 (Response 200 ''[1,2]''), pass 2000000000 (Response 200 ''[]'')]
      \<lparr>limiter = NewRateLimiter maxReqPerMin 0, fromId = 0, files = Map.empty, calls = []\<rparr>)) = [0, 3] \<and>
   reqQuery (fetchRequest ''ETHBTC'' 3) = [(''symbol'', ''ETHBTC''), (''limit'', ''1000''), (''fromId'', ''3'')] \<and>
   sint (3 :: int64) = 3"
  using C4_next_fetch_uses_last_id_plus_one
    [of "\<lparr>limiter = NewRateLimiter maxReqPerMin 0, fromId = 0, files = Map.empty, calls = []\<rparr>"
        "pass 1000000000 (Response 200 ''[1,2]'')"
        "\<lparr>count = 1, limitPerMin = 1499, resetTime = 61000000000\<rparr>" "[]"
        testlib "''ETHBTC''" "[mkTrade 1 1700000000000, mkTrade 2 1700003600000]"
        "pass 2000000000 (Response 200 ''[]'')"
        "\<lparr>count = 2, limitPerMin = 1499, resetTime = 61000000000\<rparr>" "[]"]
  by (simp add: fetch_fixture pass_clock Wait_first_pass Wait_second_pass mkTrade_fields FormatInt_3
        del: Wait.simps processLoop.simps)

text \<open>
  A page whose last record has the largest \<^verbatim>\<open>int64\<close> id, 9223372036854775807:
  the next fetch call is made with \<^verbatim>\<open>fromId\<close> -9223372036854775808, which is
  not that id plus one.
\<close>

theorem C4_counterexample:
  "sint (TradeId (last [mkTrade 9223372036854775807 1700000000000])) = 9223372036854775807 \<and>
   map sint (calls (snd (processLoop
      \<lparr>jsonDecode = (\<lambda>body. Inr [mkTrade 9223372036854775807 1700000000000]), csvEncode = plainCSV\<rparr>
      ''ETHBTC'' [pass 1000000000 (Response 200 ''[max]''), pass 2000000000 (Response 500 ''busy'')]
      \<lparr>limiter = NewRateLimiter maxReqPerMin 0, fromId = 0, files = Map.empty, calls = []\<rparr>)))
     = [0, - 9223372036854775808] \<and>
   (- 9223372036854775808 :: int) \<noteq> 9223372036854775807 + 1"
  by (simp add: iteration_def Let_def fetchTrades_def pass_def Wait_first_pass Wait_second_pass
        mkTrade_fields del: Wait.simps)

lemma source_in_order_prefix:
  "source_in_order lib symbol (s1 @ s2) w \<Longrightarrow> source_in_order lib symbol s1 w"
proof (induction s1 arbitrary: w)
  case Nil
  then show ?case by simp
next
  case (Cons ev s1)
  then show ?case by (auto split: if_splits)
qed

text \<open>
  C5 (amended). The cursor starts at 0. A pass sets it to the last record's id plus one
  when its fetch succeeds with a non-empty page, and leaves it unchanged otherwise (an
  error, an empty page, or a \<^verbatim>\<open>Wait\<close> that has not returned). On a run in which
  every non-empty page fetched ends at an id not below the requested \<^verbatim>\<open>fromId\<close>
  and below the largest \<^verbatim>\<open>int64\<close>, the cursor never decreases: it is at least 0,
  and its value after a prefix of the run is at most its value after the whole run.
\<close>

theorem C5_cursor_monotone_on_ordered_source:
  "fromId (snd (processSymbol lib symbol mkdir_ok rl fs [])) = 0 \<and>
   fromId (snd (iteration lib symbol ev w)) =
     (case Wait (limiter w) (wait_clock ev) of
        None \<Rightarrow> fromId w
      | Some r \<Rightarrow>
          (case fetchTrades lib (clientDo ev) symbol (fromId w) of
             Inl e \<Rightarrow> fromId w
           | Inr trades \<Rightarrow> if trades = [] then fromId w else TradeId (last trades) + 1)) \<and>
   (source_in_order lib symbol (s1 @ s2) \<lparr>limiter = rl, fromId = 0, files = fs, calls = []\<rparr> \<longrightarrow>
      0 \<le> sint (fromId (snd (processSymbol lib symbol mkdir_ok rl fs s1))) \<and>
      sint (fromId (snd (processSymbol lib symbol mkdir_ok rl fs s1)))
        \<le> sint (fromId (snd (processSymbol lib symbol mkdir_ok rl fs (s1 @ s2)))))"
proof (intro conjI impI)
  show "fromId (snd (processSymbol lib symbol mkdir_ok rl fs [])) = 0"
    by (simp add: processSymbol_def)
  show "fromId (snd (iteration lib symbol ev w)) =
     (case Wait (limiter w) (wait_clock ev) of
        None \<Rightarrow> fromId w
      | Some r \<Rightarrow>
          (case fetchTrades lib (clientDo ev) symbol (fromId w) of
             Inl e \<Rightarrow> fromId w
           | Inr trades \<Rightarrow> if trades = [] then fromId w else TradeId (last trades) + 1))"
    by (rule iteration_fromId)
next
  let ?w0 = "\<lparr>limiter = rl, fromId = 0, files = fs, calls = []\<rparr>"
  assume a: "source_in_order lib symbol (s1 @ s2) ?w0"
  have "sint (fromId ?w0) \<le> sint (fromId (snd (processLoop lib symbol s1 ?w0)))"
    by (rule processLoop_mono) (rule source_in_order_prefix [OF a])
  then show "0 \<le> sint (fromId (snd (processSymbol lib symbol mkdir_ok rl fs s1)))"
    by (simp add: processSymbol_def)
  show "sint (fromId (snd (processSymbol lib symbol mkdir_ok rl fs s1)))
        \<le> sint (fromId (snd (processSymbol lib symbol mkdir_ok rl fs (s1 @ s2))))"
    using processLoop_prefix_mono [OF a] by (simp add: processSymbol_def)
qed

lemma run_5:
  "processSymbol testlib ''ETHBTC'' True (NewRateLimiter maxReqPerMin 0) Map.empty
      [pass 1000000000 (Response 200 ''[5]'')]
     = (Running, \<lparr>limiter = \<lparr>count = 1, limitPerMin = 1499, resetTime = 61000000000\<rparr>,
          fromId = 6,
          files = saveGroups testlib (\<lambda>p. no_faults) ''ETHBTC''
                    (groupTradesByDate [mkTrade 5 1700000000000]) Map.empty,
          calls = [0]\<rparr>)"
  by (simp add: processSymbol_def iteration_def Let_def fetch_fixture pass_clock Wait_first_pass
        mkTrade_fields del: Wait.simps)

lemma run_5_2:
  "fromId (snd (processSymbol testlib ''ETHBTC'' True (NewRateLimiter maxReqPerMin 0) Map.empty
      [pass 1000000000 (Response 200 ''[5]''), pass 2000000000 (Response 200 ''[2]'')])) = 3"
  by (simp add: processSymbol_def iteration_def Let_def fetch_fixture pass_clock Wait_first_pass
        Wait_second_pass mkTrade_fields del: Wait.simps)

text \<open>
  The program takes the cursor from whatever page arrives: after a page ending at id 5
  the cursor is 6, and after a next page ending at id 2 it is 3.
\<close>

theorem C5_counterexample:
  "fromId (snd (processSymbol testlib ''ETHBTC'' True (NewRateLimiter maxReqPerMin 0) Map.empty
      [pass 1000000000 (Response 200 ''[5]'')])) = 6 \<and>
   fromId (snd (processSymbol testlib ''ETHBTC'' True (NewRateLimiter maxReqPerMin 0) Map.empty
      [pass 1000000000 (Response 200 ''[5]''), pass 2000000000 (Response 200 ''[2]'')])) = 3 \<and>
   \<not> sint (6 :: int64) \<le> sint (3 :: int64)"
  by (simp add: run_5 run_5_2)

lemma run_12:
  "fromId (snd (processSymbol testlib ''ETHBTC'' True (NewRateLimiter maxReqPerMin 0) Map.empty
      [pass 1000000000 (Response 200 ''[1,2]'')])) = 3"
  by (simp add: processSymbol_def iteration_def Let_def fetch_fixture pass_clock Wait_first_pass
        mkTrade_fields del: Wait.simps)

lemma run_12_5:
  "fromId (snd (processSymbol testlib ''ETHBTC'' True (NewRateLimiter maxReqPerMin 0) Map.empty
      [pass 1000000000 (Response 200 ''[1,2]''), pass 2000000000 (Response 200 ''[5]'')])) = 6"
  by (simp add: processSymbol_def iteration_def Let_def fetch_fixture pass_clock Wait_first_pass
        Wait_second_pass mkTrade_fields del: Wait.simps)

lemma order_12_5:
  "source_in_order testlib ''ETHBTC''
     [pass 1000000000 (Response 200 ''[1,2]''), pass 2000000000 (Response 200 ''[5]'')]
     \<lparr>limiter = NewRateLimiter maxReqPerMin 0, fromId = 0, files = Map.empty, calls = []\<rparr>"
  by (simp add: iteration_def Let_def fetch_fixture pass_clock Wait_first_pass
        Wait_second_pass mkTrade_fields page_in_order_def del: Wait.simps)

theorem C5_witness:
  "source_in_order testlib ''ETHBTC''
     ([pass 1000000000 (Response 200 ''[1,2]'')] @ [pass 2000000000 (Response 200 ''[5]'')])
     \<lparr>limiter = NewRateLimiter maxReqPerMin 0, fromId = 0, files = Map.empty, calls = []\<rparr> \<and>
   fromId (snd (processSymbol testlib ''ETHBTC'' True (NewRateLimiter maxReqPerMin 0) Map.empty
      [pass 1000000000 (Response 200 ''[1,2]'')])) = 3 \<and>
   fromId (snd (processSymbol testlib ''ETHBTC'' True (NewRateLimiter maxReqPerMin 0) Map.empty
      ([pass 1000000000 (Response 200 ''[1,2]'')] @ [pass 2000000000 (Response 200 ''[5]'')]))) = 6 \<and>
   sint (3 :: int64) \<le> sint (6 :: int64)"
  using C5_cursor_monotone_on_ordered_source [of testlib "''ETHBTC''" True "NewRateLimiter maxReqPerMin 0"
      Map.empty "pass 1000000000 (Response 200 ''[1,2]'')"
      "\<lparr>limiter = NewRateLimiter maxReqPerMin 0, fromId = 0, files = Map.empty, calls = []\<rparr>"
      "[pass 1000000000 (Response 200 ''[1,2]'')]" "[pass 2000000000 (Response 200 ''[5]'')]"]
  by (simp add: order_12_5 run_12 run_12_5 del: source_in_order.simps processLoop.simps Wait.simps)

text \<open>
  The whole worker on a source that answers with two trades of 2023-11-14 and then with
  an empty page: two fetch calls, the cursor ends at 3, and one file holds the header and
  the two rows.
\<close>

lemma end_to_end:
  "processSymbol testlib ''ETHBTC'' True (NewRateLimiter maxReqPerMin 0) Map.empty
      [pass 1000000000 (Response 200 ''[1,2]''), pass 2000000000 (Response 200 ''[]'')]
     = (Done,
        \<lparr>limiter = \<lparr>count = 2, limitPerMin = 1499, resetTime = 61000000000\<rparr>,
         fromId = 3,
         files = [''ETHBTC/2023-11-14.csv'' \<mapsto>
                    ''tradeId,price,quantity,timestamp,isBuyerMaker'' @ [CHR 0x0A] @
                    ''1,0.5,2,1700000000000,false'' @ [CHR 0x0A] @
                    ''2,0.5,2,1700003600000,false'' @ [CHR 0x0A]],
         calls = [0, 3]\<rparr>)"
  by (simp add: processSymbol_def iteration_def Let_def fetch_fixture pass_clock Wait_first_pass
        Wait_second_pass mkTrade_fields group_example saveToCSV_ok no_faults_def os_Stat_def
        testlib_csv plainCSV_header plainCSV_row1 plainCSV_row2 del: Wait.simps)

end
